theory Spec2Isabelle
  imports Main "HOL-Library.Word"
begin

section \<open>The Google Chrome plugin of EventGhost: values, state and effects\<close>

text \<open>
  The plugin (\<^verbatim>\<open>plugins/GoogleChrome/__init__.py\<close>) relays JSON messages between the
  host and one browser peer over a websocket. The embedding follows the source method by
  method. Python values that travel through the code (what \<^verbatim>\<open>json.loads\<close> returns, what
  \<^verbatim>\<open>json.dumps\<close> takes, the payload of an event) are values of \<open>pyval\<close>; a Python float
  is its 64-bit pattern, a dict is an association list read with \<open>map_of\<close>.
\<close>

datatype pyval =
    PNone
  | PBool bool
  | PInt int
  | PFloat "64 word"
  | PStr string
  | PList "pyval list"
  | PDict "(string \<times> pyval) list"

datatype py_error =
    ValueError
  | KeyError string
  | TypeError
  | SyntaxError
  | OSError
  | AttributeError

text \<open>
  \<^verbatim>\<open>v[key]\<close> with a string key: a dict looks the key up and raises \<^verbatim>\<open>KeyError\<close> when it
  is absent; a list, a string, a number, a boolean and \<^verbatim>\<open>None\<close> raise \<^verbatim>\<open>TypeError\<close>.
\<close>

fun getitem :: "pyval \<Rightarrow> string \<Rightarrow> py_error + pyval" where
  "getitem (PDict kvs) key =
     (case map_of kvs key of None \<Rightarrow> Inl (KeyError key) | Some v \<Rightarrow> Inr v)"
| "getitem v key = Inl TypeError"

text \<open>
  The client dict that \<^verbatim>\<open>websocket_server\<close> hands to the callbacks; the plugin reads
  only \<^verbatim>\<open>client['handler']\<close>, which the library always sets. A handler is named by a
  number.
\<close>

record client =
  client_id :: nat
  handler :: nat

datatype thread_obj = Thread_run_forever

text \<open>
  Calls into \<^verbatim>\<open>websocket_server\<close> and \<^verbatim>\<open>threading\<close>, in the order the plugin makes them.
\<close>

datatype lib_call =
    WebsocketServer_init nat string
  | Thread_start
  | Shutdown
  | Send_message nat string

text \<open>
  The state the code reads and writes: the two fields of \<^verbatim>\<open>Server\<close>, and what it does
  to its surroundings: the events given to \<^verbatim>\<open>plugin.TriggerEvent\<close> (suffix and payload,
  \<open>None\<close> when no payload is passed), the lines given to \<^verbatim>\<open>print\<close>, and the calls into
  the transport library.
\<close>

record state =
  thread :: "thread_obj option"
  connected_client :: "client option"
  triggered :: "(string \<times> pyval option) list"
  printed :: "string list"
  transport :: "lib_call list"

text \<open>
  A method either returns or raises; either way the effects it had until then stay.
\<close>

datatype outcome = Returned state | Raised py_error state

fun final :: "outcome \<Rightarrow> state" where
  "final (Returned s) = s"
| "final (Raised e s) = s"

fun raised :: "outcome \<Rightarrow> py_error option" where
  "raised (Returned s) = None"
| "raised (Raised e s) = Some e"

definition TriggerEvent :: "string \<Rightarrow> pyval option \<Rightarrow> state \<Rightarrow> state" where
  "TriggerEvent suffix payload s = s\<lparr>triggered := triggered s @ [(suffix, payload)]\<rparr>"

definition py_print :: "string \<Rightarrow> state \<Rightarrow> state" where
  "py_print line s = s\<lparr>printed := printed s @ [line]\<rparr>"

definition lib :: "lib_call \<Rightarrow> state \<Rightarrow> state" where
  "lib c s = s\<lparr>transport := transport s @ [c]\<rparr>"

section \<open>Server\<close>

text \<open>\<^verbatim>\<open>Server.__init__\<close>: no thread, no client; nothing has happened yet.\<close>

definition Server_init :: state where
  "Server_init =
     \<lparr>thread = None, connected_client = None, triggered = [], printed = [], transport = []\<rparr>"

text \<open>
  \<^verbatim>\<open>Server.start\<close>. The constructor of the library's server binds the port and may raise;
  whether it does is the library's matter, so its result is the first argument.
\<close>

definition start :: "py_error option \<Rightarrow> string \<Rightarrow> nat \<Rightarrow> state \<Rightarrow> outcome" where
  "start init_raises host port s =
     (let s1 = lib (WebsocketServer_init port host) s in
      case init_raises of
        Some e \<Rightarrow> Raised e s1
      | None \<Rightarrow> Returned (lib Thread_start (s1\<lparr>thread := Some Thread_run_forever\<rparr>)))"

text \<open>
  \<^verbatim>\<open>Server.stop\<close>: \<^verbatim>\<open>self.shutdown()\<close>, then both fields are set to \<^verbatim>\<open>None\<close>. What
  \<^verbatim>\<open>shutdown\<close> of the library does, and whether it raises, is again an argument.
\<close>

definition stop :: "py_error option \<Rightarrow> state \<Rightarrow> outcome" where
  "stop shutdown_raises s =
     (let s1 = lib Shutdown s in
      case shutdown_raises of
        Some e \<Rightarrow> Raised e s1
      | None \<Rightarrow> Returned (s1\<lparr>thread := None, connected_client := None\<rparr>))"

definition new_client :: "client \<Rightarrow> state \<Rightarrow> state" where
  "new_client c s = (TriggerEvent ''Browser.Connected'' None s)\<lparr>connected_client := Some c\<rparr>"

definition client_left :: "client \<Rightarrow> state \<Rightarrow> state" where
  "client_left c s = (TriggerEvent ''Browser.Disconnected'' None s)\<lparr>connected_client := None\<rparr>"

text \<open>\<^verbatim>\<open>Server.send\<close>: one write to the tracked client's handler, or nothing at all.\<close>

definition send :: "string \<Rightarrow> state \<Rightarrow> outcome" where
  "send message s =
     (case connected_client s of
        None \<Rightarrow> Returned s
      | Some c \<Rightarrow> Returned (lib (Send_message (handler c) message) s))"

section \<open>IncomingMessageHandler\<close>

text \<open>
  \<^verbatim>\<open>json.loads\<close> belongs to Python's library, not to the plugin: it is the argument
  \<open>loads\<close>, which gives the decoded value or the error it raises.

  \<^verbatim>\<open>y['command'] == tag\<close>, the test of every branch: the subscript may raise, and a
  value that is not the string \<open>tag\<close> compares unequal.
\<close>

definition command_is :: "pyval \<Rightarrow> string \<Rightarrow> py_error + bool" where
  "command_is y tag =
     (case getitem y ''command'' of Inl e \<Rightarrow> Inl e | Inr c \<Rightarrow> Inr (c = PStr tag))"

text \<open>\<^verbatim>\<open>y['data'][key]\<close>: two subscripts, the outer one first.\<close>

definition data_field :: "pyval \<Rightarrow> string \<Rightarrow> py_error + pyval" where
  "data_field y key =
     (case getitem y ''data'' of Inl e \<Rightarrow> Inl e | Inr d \<Rightarrow> getitem d key)"

text \<open>
  \<^verbatim>\<open>command_received\<close>. The message is printed, then decoded, then the chain of
  \<^verbatim>\<open>if\<close>/\<^verbatim>\<open>elif\<close> runs in the order of the source. The arguments of a call are
  evaluated before the call, so a payload that cannot be read raises before its own event is
  triggered, and after the events of the statements above it. There is no \<^verbatim>\<open>else\<close>
  and no \<^verbatim>\<open>try\<close>.
\<close>

definition command_received ::
    "(string \<Rightarrow> py_error + pyval) \<Rightarrow> string \<Rightarrow> state \<Rightarrow> outcome" where
  "command_received loads message s0 =
     (let s = py_print message s0 in
      case loads message of
        Inl e \<Rightarrow> Raised e s
      | Inr y \<Rightarrow>
     (case command_is y ''QueryActiveTab'' of
        Inl e \<Rightarrow> Raised e s
      | Inr True \<Rightarrow>
          (let s1 = TriggerEvent ''QueryActiveTabInfo'' (Some (PStr message)) s in
           case data_field y ''url'' of
             Inl e \<Rightarrow> Raised e s1
           | Inr u \<Rightarrow> Returned (TriggerEvent ''QueryActiveTab'' (Some u) s1))
      | Inr False \<Rightarrow>
     (case command_is y ''QueryTabByIndex'' of
        Inl e \<Rightarrow> Raised e s
      | Inr True \<Rightarrow>
          (case data_field y ''index'' of
             Inl e \<Rightarrow> Raised e s
           | Inr i \<Rightarrow>
               Returned (TriggerEvent ''QueryTabByIndexInfo'' (Some (PStr message))
                          (TriggerEvent ''QueryTabByIndex'' (Some i) s)))
      | Inr False \<Rightarrow>
     (case command_is y ''ActiveTab'' of
        Inl e \<Rightarrow> Raised e s
      | Inr True \<Rightarrow>
          (case data_field y ''url'' of
             Inl e \<Rightarrow> Raised e s
           | Inr u \<Rightarrow>
               Returned (TriggerEvent ''ActiveTabInfo'' (Some (PStr message))
                          (TriggerEvent ''ActiveTabUrl'' (Some u) s)))
      | Inr False \<Rightarrow>
     (case command_is y ''TabUpdated'' of
        Inl e \<Rightarrow> Raised e s
      | Inr True \<Rightarrow>
          (case data_field y ''url'' of
             Inl e \<Rightarrow> Raised e s
           | Inr u \<Rightarrow>
               Returned (TriggerEvent ''ActiveTabUrInfo'' (Some (PStr message))
                          (TriggerEvent ''ActiveTabUrl'' (Some u) s)))
      | Inr False \<Rightarrow>
     (case command_is y ''CreateNewTab'' of
        Inl e \<Rightarrow> Raised e s
      | Inr True \<Rightarrow> Returned (TriggerEvent ''CreateNewTab'' (Some (PStr message)) s)
      | Inr False \<Rightarrow>
     (case command_is y ''MoveTab'' of
        Inl e \<Rightarrow> Raised e s
      | Inr True \<Rightarrow> Returned (TriggerEvent ''MoveTab'' (Some (PStr message)) s)
      | Inr False \<Rightarrow>
     (case command_is y ''RemoveTab'' of
        Inl e \<Rightarrow> Raised e s
      | Inr True \<Rightarrow> Returned (TriggerEvent ''RemoveTab'' (Some (PStr message)) s)
      | Inr False \<Rightarrow> Returned s))))))))"

text \<open>
  \<^verbatim>\<open>Server.message_received\<close> makes a handler and calls it with the message; whatever the
  handler raises leaves \<^verbatim>\<open>message_received\<close> too, back into the library that called it.
\<close>

definition message_received ::
    "(string \<Rightarrow> py_error + pyval) \<Rightarrow> string \<Rightarrow> state \<Rightarrow> outcome" where
  "message_received loads message s = command_received loads message s"

text \<open>
  The frames of the examples below and what \<^verbatim>\<open>json.loads\<close> makes of them; every other
  text is taken as not decodable.
\<close>

definition frame_query_active :: string where
  \<open>frame_query_active = ''{"command":"QueryActiveTab","data":{"url":"http://x"}}''\<close>

definition frame_query_active_no_url :: string where
  \<open>frame_query_active_no_url = ''{"command":"QueryActiveTab","data":{}}''\<close>

definition frame_query_index :: string where
  \<open>frame_query_index = ''{"command":"QueryTabByIndex","data":{"index":2}}''\<close>

definition frame_active :: string where
  \<open>frame_active = ''{"command":"ActiveTab","data":{"url":"http://x"}}''\<close>

definition frame_active_no_url :: string where
  \<open>frame_active_no_url = ''{"command":"ActiveTab","data":{}}''\<close>

definition frame_updated :: string where
  \<open>frame_updated = ''{"command":"TabUpdated","data":{"url":"http://x"}}''\<close>

definition frame_create :: string where
  \<open>frame_create = ''{"command":"CreateNewTab","data":{}}''\<close>

definition frame_move :: string where
  \<open>frame_move = ''{"command":"MoveTab","data":{}}''\<close>

definition frame_remove :: string where
  \<open>frame_remove = ''{"command":"RemoveTab","data":{}}''\<close>

definition frame_unknown :: string where
  \<open>frame_unknown = ''{"command":"Unknown","data":{}}''\<close>

definition frame_no_command :: string where
  \<open>frame_no_command = ''{"data":{}}''\<close>

definition frame_not_json :: string where
  \<open>frame_not_json = ''not json''\<close>

definition event :: "string \<Rightarrow> (string \<times> pyval) list \<Rightarrow> pyval" where
  "event tag kvs = PDict [(''command'', PStr tag), (''data'', PDict kvs)]"

definition sample_loads :: "string \<Rightarrow> py_error + pyval" where
  "sample_loads text =
     (if text = frame_query_active then Inr (event ''QueryActiveTab'' [(''url'', PStr ''http://x'')])
      else if text = frame_query_active_no_url then Inr (event ''QueryActiveTab'' [])
      else if text = frame_query_index then Inr (event ''QueryTabByIndex'' [(''index'', PInt 2)])
      else if text = frame_active then Inr (event ''ActiveTab'' [(''url'', PStr ''http://x'')])
      else if text = frame_active_no_url then Inr (event ''ActiveTab'' [])
      else if text = frame_updated then Inr (event ''TabUpdated'' [(''url'', PStr ''http://x'')])
      else if text = frame_create then Inr (event ''CreateNewTab'' [])
      else if text = frame_move then Inr (event ''MoveTab'' [])
      else if text = frame_remove then Inr (event ''RemoveTab'' [])
      else if text = frame_unknown then Inr (event ''Unknown'' [])
      else if text = frame_no_command then Inr (PDict [(''data'', PDict [])])
      else Inl ValueError)"

section \<open>The callbacks of the library, one after the other\<close>

text \<open>
  The library calls \<^verbatim>\<open>new_client\<close> when a peer connects and \<^verbatim>\<open>client_left\<close> when one
  goes; a history of connections is a list of such calls, run from left to right.
\<close>

datatype peer_event = Connects client | Leaves client

fun callback :: "peer_event \<Rightarrow> state \<Rightarrow> state" where
  "callback (Connects c) s = new_client c s"
| "callback (Leaves c) s = client_left c s"

fun callbacks :: "peer_event list \<Rightarrow> state \<Rightarrow> state" where
  "callbacks [] s = s"
| "callbacks (ev # evs) s = callbacks evs (callback ev s)"

section \<open>GoogleChrome and its actions\<close>

text \<open>\<^verbatim>\<open>__start__\<close> and \<^verbatim>\<open>__stop__\<close> of the plugin: the server on \<^verbatim>\<open>localhost:8000\<close>.\<close>

definition GoogleChrome_start :: "py_error option \<Rightarrow> state \<Rightarrow> outcome" where
  "GoogleChrome_start init_raises s = start init_raises ''localhost'' 8000 s"

definition GoogleChrome_stop :: "py_error option \<Rightarrow> state \<Rightarrow> outcome" where
  "GoogleChrome_stop shutdown_raises s = stop shutdown_raises s"

text \<open>
  Every action builds a dict, serialises it with \<^verbatim>\<open>json.dumps\<close> and gives the text to
  \<^verbatim>\<open>Server.send\<close>. \<^verbatim>\<open>json.dumps\<close> is the argument \<open>dumps\<close>; the host's
  \<^verbatim>\<open>eg.ParseString\<close>, which expands the templates of a text and may raise, is the argument
  \<open>ParseString\<close>. The dict of each action is a function of its own, so that its shape can
  be stated; the values the host passes are Python values of any type.
\<close>

definition NewTab_message :: "string \<Rightarrow> pyval \<Rightarrow> pyval \<Rightarrow> pyval \<Rightarrow> pyval \<Rightarrow> pyval" where
  "NewTab_message value1 value2 value3 value5 value6 =
     PDict [(''command'', PStr ''NewTab''),
            (''parameters'', PDict [(''url'', PStr value1), (''active'', value2),
               (''pinned'', value3), (''target'', value5), (''index'', value6)])]"

definition NewTab_call ::
    "(string \<Rightarrow> py_error + string) \<Rightarrow> (pyval \<Rightarrow> string) \<Rightarrow>
     string \<Rightarrow> pyval \<Rightarrow> pyval \<Rightarrow> pyval \<Rightarrow> pyval \<Rightarrow> state \<Rightarrow> outcome" where
  "NewTab_call ParseString dumps value1 value2 value3 value5 value6 s =
     (case ParseString value1 of
        Inl e \<Rightarrow> Raised e s
      | Inr value1' \<Rightarrow>
          (let message = NewTab_message value1' value2 value3 value5 value6;
               y = dumps message
           in send y s))"

definition UpdateTab_message ::
    "string \<Rightarrow> pyval \<Rightarrow> pyval \<Rightarrow> pyval \<Rightarrow> pyval \<Rightarrow> pyval \<Rightarrow> pyval" where
  "UpdateTab_message value1 value2 value3 value4 value5 value6 =
     PDict [(''command'', PStr ''NewUrl''),
            (''parameters'', PDict [(''url'', PStr value1), (''active'', value2),
               (''pinned'', value3), (''muted'', value4), (''target'', value5),
               (''index'', value6)])]"

definition UpdateTab_call ::
    "(string \<Rightarrow> py_error + string) \<Rightarrow> (pyval \<Rightarrow> string) \<Rightarrow>
     string \<Rightarrow> pyval \<Rightarrow> pyval \<Rightarrow> pyval \<Rightarrow> pyval \<Rightarrow> pyval \<Rightarrow> state \<Rightarrow> outcome" where
  "UpdateTab_call ParseString dumps value1 value2 value3 value4 value5 value6 s =
     (case ParseString value1 of
        Inl e \<Rightarrow> Raised e s
      | Inr value1' \<Rightarrow>
          (let message = UpdateTab_message value1' value2 value3 value4 value5 value6;
               y = dumps message
           in send y s))"

definition ReloadTab_message :: "pyval \<Rightarrow> pyval \<Rightarrow> pyval \<Rightarrow> pyval" where
  "ReloadTab_message value5 value6 value7 =
     PDict [(''command'', PStr ''ReloadTab''),
            (''parameters'', PDict [(''target'', value5), (''index'', value6),
               (''bypasscache'', value7)])]"

definition ReloadTab_call ::
    "(pyval \<Rightarrow> string) \<Rightarrow> pyval \<Rightarrow> pyval \<Rightarrow> pyval \<Rightarrow> state \<Rightarrow> outcome" where
  "ReloadTab_call dumps value5 value6 value7 s =
     (let message = ReloadTab_message value5 value6 value7; y = dumps message in send y s)"

definition MoveTab_message :: "pyval \<Rightarrow> pyval \<Rightarrow> pyval \<Rightarrow> pyval" where
  "MoveTab_message value5 value6 value7 =
     PDict [(''command'', PStr ''MoveTab''),
            (''parameters'', PDict [(''target'', value5), (''startindex'', value6),
               (''endindex'', value7)])]"

definition MoveTab_call ::
    "(pyval \<Rightarrow> string) \<Rightarrow> pyval \<Rightarrow> pyval \<Rightarrow> pyval \<Rightarrow> state \<Rightarrow> outcome" where
  "MoveTab_call dumps value5 value6 value7 s =
     (let message = MoveTab_message value5 value6 value7; y = dumps message in send y s)"

definition RemoveTab_message :: "pyval \<Rightarrow> pyval \<Rightarrow> pyval" where
  "RemoveTab_message value5 value6 =
     PDict [(''command'', PStr ''RemoveTab''),
            (''parameters'', PDict [(''target'', value5), (''index'', value6)])]"

definition RemoveTab_call :: "(pyval \<Rightarrow> string) \<Rightarrow> pyval \<Rightarrow> pyval \<Rightarrow> state \<Rightarrow> outcome" where
  "RemoveTab_call dumps value5 value6 s =
     (let message = RemoveTab_message value5 value6; y = dumps message in send y s)"

definition QueryActiveTab_message :: pyval where
  "QueryActiveTab_message = PDict [(''command'', PStr ''QueryActiveTab'')]"

definition QueryActiveTab_call :: "(pyval \<Rightarrow> string) \<Rightarrow> state \<Rightarrow> outcome" where
  "QueryActiveTab_call dumps s =
     (let message = QueryActiveTab_message; y = dumps message in send y s)"

definition QueryTabByIndex_message :: "pyval \<Rightarrow> pyval" where
  "QueryTabByIndex_message message =
     PDict [(''command'', PStr ''QueryTabByIndex''), (''data'', message)]"

definition QueryTabByIndex_call :: "(pyval \<Rightarrow> string) \<Rightarrow> pyval \<Rightarrow> state \<Rightarrow> outcome" where
  "QueryTabByIndex_call dumps message s =
     (let message = QueryTabByIndex_message message; y = dumps message in send y s)"

text \<open>
  The action of the example, the text \<^verbatim>\<open>json.dumps\<close> gives for its dict, and an
  \<^verbatim>\<open>eg.ParseString\<close> for texts without template, which it returns as they are.
\<close>

definition example_url :: string where
  "example_url = ''http://example.com''"

definition example_message :: pyval where
  "example_message =
     PDict [(''command'', PStr ''NewTab''),
            (''parameters'', PDict [(''url'', PStr ''http://example.com''),
               (''active'', PBool True), (''pinned'', PBool False), (''target'', PInt 1),
               (''index'', PInt 3)])]"

definition example_text :: string where
  \<open>example_text = ''{"command": "NewTab", "parameters": {"url": "http://example.com", "active": true, "pinned": false, "target": 1, "index": 3}}''\<close>

definition sample_dumps :: "pyval \<Rightarrow> string" where
  \<open>sample_dumps v =
     (if v = example_message then example_text
      else if v = QueryActiveTab_message then ''{"command": "QueryActiveTab"}''
      else ''null'')\<close>

definition sample_ParseString :: "string \<Rightarrow> py_error + string" where
  "sample_ParseString text = Inr text"

definition example_client :: client where
  "example_client = \<lparr>client_id = 1, handler = 1\<rparr>"

definition other_client :: client where
  "other_client = \<lparr>client_id = 2, handler = 2\<rparr>"

section \<open>Properties\<close>

subsection \<open>Reading the state, the subscripts and the sample frames\<close>

lemma command_is_eq:
  "getitem y ''command'' = Inr c \<Longrightarrow> command_is y tag = Inr (c = PStr tag)"
  by (simp add: command_is_def)

lemma command_is_error:
  "getitem y ''command'' = Inl e \<Longrightarrow> command_is y tag = Inl e"
  by (simp add: command_is_def)

lemma data_field_absent:
  "getitem y ''data'' = Inr (PDict d) \<Longrightarrow> map_of d key = None \<Longrightarrow>
   data_field y key = Inl (KeyError key)"
  by (simp add: data_field_def)

lemma getitem_event_command: "getitem (event tag kvs) ''command'' = Inr (PStr tag)"
  by (simp add: event_def)

lemma getitem_event_data: "getitem (event tag kvs) ''data'' = Inr (PDict kvs)"
  by (simp add: event_def)

lemma loads_query_active:
  "sample_loads frame_query_active = Inr (event ''QueryActiveTab'' [(''url'', PStr ''http://x'')])"
  by code_simp

lemma loads_query_active_no_url:
  "sample_loads frame_query_active_no_url = Inr (event ''QueryActiveTab'' [])"
  by code_simp

lemma loads_query_index:
  "sample_loads frame_query_index = Inr (event ''QueryTabByIndex'' [(''index'', PInt 2)])"
  by code_simp

lemma loads_active:
  "sample_loads frame_active = Inr (event ''ActiveTab'' [(''url'', PStr ''http://x'')])"
  by code_simp

lemma loads_active_no_url: "sample_loads frame_active_no_url = Inr (event ''ActiveTab'' [])"
  by code_simp

lemma loads_updated:
  "sample_loads frame_updated = Inr (event ''TabUpdated'' [(''url'', PStr ''http://x'')])"
  by code_simp

lemma loads_create: "sample_loads frame_create = Inr (event ''CreateNewTab'' [])"
  by code_simp

lemma loads_move: "sample_loads frame_move = Inr (event ''MoveTab'' [])"
  by code_simp

lemma loads_remove: "sample_loads frame_remove = Inr (event ''RemoveTab'' [])"
  by code_simp

lemma loads_unknown: "sample_loads frame_unknown = Inr (event ''Unknown'' [])"
  by code_simp

lemma loads_no_command: "sample_loads frame_no_command = Inr (PDict [(''data'', PDict [])])"
  by code_simp

lemma loads_not_json: "sample_loads frame_not_json = Inl ValueError"
  by code_simp

subsection \<open>The dispatcher, branch by branch\<close>

lemma received_query_active:
  assumes "loads message = Inr y" and "getitem y ''command'' = Inr (PStr ''QueryActiveTab'')"
    and "data_field y ''url'' = Inr u"
  shows "command_received loads message s =
     Returned (s\<lparr>printed := printed s @ [message],
                 triggered := triggered s @ [(''QueryActiveTabInfo'', Some (PStr message)),
                                             (''QueryActiveTab'', Some u)]\<rparr>)"
  using assms by (simp add: command_received_def command_is_eq TriggerEvent_def py_print_def)

lemma received_query_active_error:
  assumes "loads message = Inr y" and "getitem y ''command'' = Inr (PStr ''QueryActiveTab'')"
    and "data_field y ''url'' = Inl e"
  shows "command_received loads message s =
     Raised e (s\<lparr>printed := printed s @ [message],
                 triggered := triggered s @ [(''QueryActiveTabInfo'', Some (PStr message))]\<rparr>)"
  using assms by (simp add: command_received_def command_is_eq TriggerEvent_def py_print_def)

lemma received_query_index:
  assumes "loads message = Inr y" and "getitem y ''command'' = Inr (PStr ''QueryTabByIndex'')"
    and "data_field y ''index'' = Inr i"
  shows "command_received loads message s =
     Returned (s\<lparr>printed := printed s @ [message],
                 triggered := triggered s @ [(''QueryTabByIndex'', Some i),
                                             (''QueryTabByIndexInfo'', Some (PStr message))]\<rparr>)"
  using assms by (simp add: command_received_def command_is_eq TriggerEvent_def py_print_def)

lemma received_query_index_error:
  assumes "loads message = Inr y" and "getitem y ''command'' = Inr (PStr ''QueryTabByIndex'')"
    and "data_field y ''index'' = Inl e"
  shows "command_received loads message s = Raised e (s\<lparr>printed := printed s @ [message]\<rparr>)"
  using assms by (simp add: command_received_def command_is_eq py_print_def)

lemma received_active:
  assumes "loads message = Inr y" and "getitem y ''command'' = Inr (PStr ''ActiveTab'')"
    and "data_field y ''url'' = Inr u"
  shows "command_received loads message s =
     Returned (s\<lparr>printed := printed s @ [message],
                 triggered := triggered s @ [(''ActiveTabUrl'', Some u),
                                             (''ActiveTabInfo'', Some (PStr message))]\<rparr>)"
  using assms by (simp add: command_received_def command_is_eq TriggerEvent_def py_print_def)

lemma received_active_error:
  assumes "loads message = Inr y" and "getitem y ''command'' = Inr (PStr ''ActiveTab'')"
    and "data_field y ''url'' = Inl e"
  shows "command_received loads message s = Raised e (s\<lparr>printed := printed s @ [message]\<rparr>)"
  using assms by (simp add: command_received_def command_is_eq py_print_def)

lemma received_updated:
  assumes "loads message = Inr y" and "getitem y ''command'' = Inr (PStr ''TabUpdated'')"
    and "data_field y ''url'' = Inr u"
  shows "command_received loads message s =
     Returned (s\<lparr>printed := printed s @ [message],
                 triggered := triggered s @ [(''ActiveTabUrl'', Some u),
                                             (''ActiveTabUrInfo'', Some (PStr message))]\<rparr>)"
  using assms by (simp add: command_received_def command_is_eq TriggerEvent_def py_print_def)

lemma received_updated_error:
  assumes "loads message = Inr y" and "getitem y ''command'' = Inr (PStr ''TabUpdated'')"
    and "data_field y ''url'' = Inl e"
  shows "command_received loads message s = Raised e (s\<lparr>printed := printed s @ [message]\<rparr>)"
  using assms by (simp add: command_received_def command_is_eq py_print_def)

lemma received_create:
  assumes "loads message = Inr y" and "getitem y ''command'' = Inr (PStr ''CreateNewTab'')"
  shows "command_received loads message s =
     Returned (s\<lparr>printed := printed s @ [message],
                 triggered := triggered s @ [(''CreateNewTab'', Some (PStr message))]\<rparr>)"
  using assms by (simp add: command_received_def command_is_eq TriggerEvent_def py_print_def)

lemma received_move:
  assumes "loads message = Inr y" and "getitem y ''command'' = Inr (PStr ''MoveTab'')"
  shows "command_received loads message s =
     Returned (s\<lparr>printed := printed s @ [message],
                 triggered := triggered s @ [(''MoveTab'', Some (PStr message))]\<rparr>)"
  using assms by (simp add: command_received_def command_is_eq TriggerEvent_def py_print_def)

lemma received_remove:
  assumes "loads message = Inr y" and "getitem y ''command'' = Inr (PStr ''RemoveTab'')"
  shows "command_received loads message s =
     Returned (s\<lparr>printed := printed s @ [message],
                 triggered := triggered s @ [(''RemoveTab'', Some (PStr message))]\<rparr>)"
  using assms by (simp add: command_received_def command_is_eq TriggerEvent_def py_print_def)

lemma received_other:
  assumes "loads message = Inr y" and "getitem y ''command'' = Inr c"
    and "c \<noteq> PStr ''QueryActiveTab''" and "c \<noteq> PStr ''QueryTabByIndex''"
    and "c \<noteq> PStr ''ActiveTab''" and "c \<noteq> PStr ''TabUpdated''"
    and "c \<noteq> PStr ''CreateNewTab''" and "c \<noteq> PStr ''MoveTab''"
    and "c \<noteq> PStr ''RemoveTab''"
  shows "command_received loads message s = Returned (s\<lparr>printed := printed s @ [message]\<rparr>)"
  using assms by (simp add: command_received_def command_is_eq py_print_def)

lemma received_undecodable:
  assumes "loads message = Inl e"
  shows "command_received loads message s = Raised e (s\<lparr>printed := printed s @ [message]\<rparr>)"
  using assms by (simp add: command_received_def py_print_def)

lemma received_no_command:
  assumes "loads message = Inr y" and "getitem y ''command'' = Inl e"
  shows "command_received loads message s = Raised e (s\<lparr>printed := printed s @ [message]\<rparr>)"
  using assms by (simp add: command_received_def command_is_error py_print_def)

subsection \<open>The tracked client along a history\<close>

lemma connected_after_callbacks:
  "connected_client (callbacks evs s) =
     (if evs = [] then connected_client s
      else case last evs of Connects c \<Rightarrow> Some c | Leaves c \<Rightarrow> None)"
proof (induction evs arbitrary: s)
  case Nil
  then show ?case by simp
next
  case (Cons ev evs)
  show ?case
  proof (cases evs)
    case Nil
    then show ?thesis
      by (cases ev) (simp_all add: new_client_def client_left_def TriggerEvent_def)
  next
    case (Cons ev' evs')
    then show ?thesis using Cons.IH [of "callback ev s"] by simp
  qed
qed

subsection \<open>The claims\<close>

text \<open>
  C1. Once a frame is decoded and its \<open>command\<close> can be read, the events triggered are
  those of the table, in its order, each with the payload the table gives; a tag outside
  the table triggers nothing and the handler returns.
\<close>

theorem dispatch_table:
  assumes "loads message = Inr y" and "getitem y ''command'' = Inr c"
  shows
    "(c = PStr ''QueryActiveTab'' \<longrightarrow> data_field y ''url'' = Inr u \<longrightarrow>
        command_received loads message s =
          Returned (s\<lparr>printed := printed s @ [message],
            triggered := triggered s @ [(''QueryActiveTabInfo'', Some (PStr message)),
                                        (''QueryActiveTab'', Some u)]\<rparr>))
   \<and> (c = PStr ''QueryTabByIndex'' \<longrightarrow> data_field y ''index'' = Inr i \<longrightarrow>
        command_received loads message s =
          Returned (s\<lparr>printed := printed s @ [message],
            triggered := triggered s @ [(''QueryTabByIndex'', Some i),
                                        (''QueryTabByIndexInfo'', Some (PStr message))]\<rparr>))
   \<and> (c = PStr ''ActiveTab'' \<longrightarrow> data_field y ''url'' = Inr u \<longrightarrow>
        command_received loads message s =
          Returned (s\<lparr>printed := printed s @ [message],
            triggered := triggered s @ [(''ActiveTabUrl'', Some u),
                                        (''ActiveTabInfo'', Some (PStr message))]\<rparr>))
   \<and> (c = PStr ''TabUpdated'' \<longrightarrow> data_field y ''url'' = Inr u \<longrightarrow>
        command_received loads message s =
          Returned (s\<lparr>printed := printed s @ [message],
            triggered := triggered s @ [(''ActiveTabUrl'', Some u),
                                        (''ActiveTabUrInfo'', Some (PStr message))]\<rparr>))
   \<and> (c = PStr ''CreateNewTab'' \<longrightarrow>
        command_received loads message s =
          Returned (s\<lparr>printed := printed s @ [message],
            triggered := triggered s @ [(''CreateNewTab'', Some (PStr message))]\<rparr>))
   \<and> (c = PStr ''MoveTab'' \<longrightarrow>
        command_received loads message s =
          Returned (s\<lparr>printed := printed s @ [message],
            triggered := triggered s @ [(''MoveTab'', Some (PStr message))]\<rparr>))
   \<and> (c = PStr ''RemoveTab'' \<longrightarrow>
        command_received loads message s =
          Returned (s\<lparr>printed := printed s @ [message],
            triggered := triggered s @ [(''RemoveTab'', Some (PStr message))]\<rparr>))
   \<and> (c \<noteq> PStr ''QueryActiveTab'' \<and> c \<noteq> PStr ''QueryTabByIndex'' \<and> c \<noteq> PStr ''ActiveTab''
        \<and> c \<noteq> PStr ''TabUpdated'' \<and> c \<noteq> PStr ''CreateNewTab'' \<and> c \<noteq> PStr ''MoveTab''
        \<and> c \<noteq> PStr ''RemoveTab'' \<longrightarrow>
        message_received loads message s =
          Returned (s\<lparr>printed := printed s @ [message]\<rparr>))"
  using assms
  by (simp add: message_received_def received_query_active received_query_index received_active
      received_updated received_create received_move received_remove received_other)

theorem dispatch_table_witness:
  "command_received sample_loads frame_query_active Server_init =
     Returned (Server_init\<lparr>printed := [frame_query_active],
       triggered := [(''QueryActiveTabInfo'', Some (PStr frame_query_active)),
                     (''QueryActiveTab'', Some (PStr ''http://x''))]\<rparr>)
   \<and> command_received sample_loads frame_query_index Server_init =
     Returned (Server_init\<lparr>printed := [frame_query_index],
       triggered := [(''QueryTabByIndex'', Some (PInt 2)),
                     (''QueryTabByIndexInfo'', Some (PStr frame_query_index))]\<rparr>)
   \<and> command_received sample_loads frame_active Server_init =
     Returned (Server_init\<lparr>printed := [frame_active],
       triggered := [(''ActiveTabUrl'', Some (PStr ''http://x'')),
                     (''ActiveTabInfo'', Some (PStr frame_active))]\<rparr>)
   \<and> command_received sample_loads frame_updated Server_init =
     Returned (Server_init\<lparr>printed := [frame_updated],
       triggered := [(''ActiveTabUrl'', Some (PStr ''http://x'')),
                     (''ActiveTabUrInfo'', Some (PStr frame_updated))]\<rparr>)
   \<and> command_received sample_loads frame_create Server_init =
     Returned (Server_init\<lparr>printed := [frame_create],
       triggered := [(''CreateNewTab'', Some (PStr frame_create))]\<rparr>)
   \<and> command_received sample_loads frame_move Server_init =
     Returned (Server_init\<lparr>printed := [frame_move],
       triggered := [(''MoveTab'', Some (PStr frame_move))]\<rparr>)
   \<and> command_received sample_loads frame_remove Server_init =
     Returned (Server_init\<lparr>printed := [frame_remove],
       triggered := [(''RemoveTab'', Some (PStr frame_remove))]\<rparr>)
   \<and> message_received sample_loads frame_unknown Server_init =
     Returned (Server_init\<lparr>printed := [frame_unknown]\<rparr>)"
proof -
  have url: "data_field (event tag [(''url'', PStr ''http://x'')]) ''url'' = Inr (PStr ''http://x'')"
    for tag by (simp add: data_field_def event_def)
  have idx: "data_field (event tag [(''index'', PInt 2)]) ''index'' = Inr (PInt 2)"
    for tag by (simp add: data_field_def event_def)
  have init: "printed Server_init = []" "triggered Server_init = []"
    by (simp_all add: Server_init_def)
  note t = dispatch_table [where loads = sample_loads and s = Server_init
      and u = "PStr ''http://x''" and i = "PInt 2", OF _ getitem_event_command]
  show ?thesis
    using t [OF loads_query_active] t [OF loads_query_index] t [OF loads_active]
      t [OF loads_updated] t [OF loads_create] t [OF loads_move] t [OF loads_remove]
      t [OF loads_unknown]
    by (simp add: url idx init)
qed

text \<open>
  C2 (as the code has it). When the field a tag needs cannot be read from \<open>data\<close>, the
  subscript raises and nothing catches it: the error leaves \<open>command_received\<close> and
  \<open>message_received\<close>. For \<open>QueryTabByIndex\<close>, \<open>ActiveTab\<close> and \<open>TabUpdated\<close> no
  event has been triggered by then; for \<open>QueryActiveTab\<close> the event \<open>QueryActiveTabInfo\<close>
  has. A \<open>data\<close> dict without the key gives \<open>KeyError\<close> of that key.
\<close>

theorem missing_field_raises:
  assumes "loads message = Inr y" and "getitem y ''command'' = Inr c"
  shows
    "(c = PStr ''QueryTabByIndex'' \<longrightarrow> data_field y ''index'' = Inl e \<longrightarrow>
        message_received loads message s =
          Raised e (s\<lparr>printed := printed s @ [message]\<rparr>))
   \<and> (c = PStr ''ActiveTab'' \<longrightarrow> data_field y ''url'' = Inl e \<longrightarrow>
        message_received loads message s =
          Raised e (s\<lparr>printed := printed s @ [message]\<rparr>))
   \<and> (c = PStr ''TabUpdated'' \<longrightarrow> data_field y ''url'' = Inl e \<longrightarrow>
        message_received loads message s =
          Raised e (s\<lparr>printed := printed s @ [message]\<rparr>))
   \<and> (c = PStr ''QueryActiveTab'' \<longrightarrow> data_field y ''url'' = Inl e \<longrightarrow>
        message_received loads message s =
          Raised e (s\<lparr>printed := printed s @ [message],
            triggered := triggered s @ [(''QueryActiveTabInfo'', Some (PStr message))]\<rparr>))
   \<and> (getitem y ''data'' = Inr (PDict d) \<longrightarrow> map_of d key = None \<longrightarrow>
        data_field y key = Inl (KeyError key))"
  using assms
  by (simp add: message_received_def received_query_index_error received_active_error
      received_updated_error received_query_active_error data_field_absent)

theorem missing_field_raises_witness:
  "message_received sample_loads frame_active_no_url Server_init =
     Raised (KeyError ''url'') (Server_init\<lparr>printed := [frame_active_no_url]\<rparr>)
   \<and> message_received sample_loads frame_query_active_no_url Server_init =
     Raised (KeyError ''url'') (Server_init\<lparr>printed := [frame_query_active_no_url],
       triggered := [(''QueryActiveTabInfo'', Some (PStr frame_query_active_no_url))]\<rparr>)"
proof -
  have absent: "data_field (event tag []) ''url'' = Inl (KeyError ''url'')" for tag
    by (simp add: data_field_def event_def)
  have init: "printed Server_init = []" "triggered Server_init = []"
    by (simp_all add: Server_init_def)
  note t = missing_field_raises [where loads = sample_loads and s = Server_init
      and e = "KeyError ''url''", OF _ getitem_event_command]
  show ?thesis
    using t [OF loads_active_no_url] t [OF loads_query_active_no_url]
    by (simp add: absent init)
qed

theorem missing_field_counterexample:
  "triggered (final (message_received sample_loads frame_query_active_no_url Server_init)) =
     [(''QueryActiveTabInfo'', Some (PStr frame_query_active_no_url))]
   \<and> raised (message_received sample_loads frame_query_active_no_url Server_init) =
     Some (KeyError ''url'')"
  by code_simp

text \<open>
  C3 (as the code has it). A frame that \<open>json.loads\<close> rejects, and a decoded value whose
  \<open>command\<close> cannot be read, are printed and trigger no event; the error of the decoder or
  of the subscript is not caught: \<open>message_received\<close> raises it to its caller.
\<close>

theorem malformed_frame_raises:
  "(loads message = Inl e \<longrightarrow>
      message_received loads message s = Raised e (s\<lparr>printed := printed s @ [message]\<rparr>))
   \<and> (loads message = Inr y \<longrightarrow> getitem y ''command'' = Inl e \<longrightarrow>
      message_received loads message s = Raised e (s\<lparr>printed := printed s @ [message]\<rparr>))"
  by (simp add: message_received_def received_undecodable received_no_command)

theorem malformed_frame_raises_witness:
  "message_received sample_loads frame_not_json Server_init =
     Raised ValueError (Server_init\<lparr>printed := [frame_not_json]\<rparr>)
   \<and> message_received sample_loads frame_no_command Server_init =
     Raised (KeyError ''command'') (Server_init\<lparr>printed := [frame_no_command]\<rparr>)"
proof -
  have init: "printed Server_init = []"
    by (simp add: Server_init_def)
  have no_command: "getitem (PDict [(''data'', PDict [])]) ''command'' = Inl (KeyError ''command'')"
    by simp
  show ?thesis
    using malformed_frame_raises [where loads = sample_loads and message = frame_not_json
        and e = ValueError and s = Server_init]
      malformed_frame_raises [where loads = sample_loads and message = frame_no_command
        and e = "KeyError ''command''" and s = Server_init and y = "PDict [(''data'', PDict [])]"]
    by (simp add: init no_command loads_not_json loads_no_command)
qed

theorem malformed_frame_counterexample:
  "raised (message_received sample_loads frame_not_json Server_init) = Some ValueError
   \<and> raised (message_received sample_loads frame_no_command Server_init) =
       Some (KeyError ''command'')"
  by code_simp

text \<open>
  C4. Whatever the message, \<open>send\<close> on a server that tracks no client returns without an
  error and leaves the whole state as it was: nothing is written to the transport, nothing
  is stored for later. So does every action; the two that expand their url raise what the
  expansion raises, before anything is built.
\<close>

theorem send_without_client:
  assumes "connected_client s = None"
  shows
    "send message s = Returned s
     \<and> QueryActiveTab_call dumps s = Returned s
     \<and> QueryTabByIndex_call dumps index s = Returned s
     \<and> ReloadTab_call dumps v5 v6 v7 s = Returned s
     \<and> MoveTab_call dumps v5 v6 v7 s = Returned s
     \<and> RemoveTab_call dumps v5 v6 s = Returned s
     \<and> NewTab_call ParseString dumps url_arg v2 v3 v5 v6 s =
         (case ParseString url_arg of Inl e \<Rightarrow> Raised e s | Inr url \<Rightarrow> Returned s)
     \<and> UpdateTab_call ParseString dumps url_arg v2 v3 v4 v5 v6 s =
         (case ParseString url_arg of Inl e \<Rightarrow> Raised e s | Inr url \<Rightarrow> Returned s)"
  using assms
  by (simp add: send_def QueryActiveTab_call_def QueryTabByIndex_call_def ReloadTab_call_def
      MoveTab_call_def RemoveTab_call_def NewTab_call_def UpdateTab_call_def split: sum.split)

theorem send_without_client_witness:
  "connected_client Server_init = None
   \<and> send example_text Server_init = Returned Server_init
   \<and> QueryActiveTab_call sample_dumps Server_init = Returned Server_init
   \<and> NewTab_call sample_ParseString sample_dumps example_url (PBool True) (PBool False)
        (PInt 1) (PInt 3) Server_init = Returned Server_init"
proof -
  have none: "connected_client Server_init = None"
    by (simp add: Server_init_def)
  show ?thesis
    using none send_without_client [where ParseString = sample_ParseString
        and dumps = sample_dumps and url_arg = example_url and message = example_text, OF none]
    by (simp add: sample_ParseString_def)
qed

text \<open>
  C5. The server tracks one client reference. A second connection replaces the first; after
  any history of connections and departures the tracked client is the one of the last
  callback if that was a connection, and none if it was a departure.
\<close>

theorem one_tracked_client:
  "connected_client (new_client c s) = Some c
   \<and> connected_client (new_client c2 (new_client c1 s)) = Some c2
   \<and> connected_client (callbacks evs s) =
       (if evs = [] then connected_client s
        else case last evs of Connects c \<Rightarrow> Some c | Leaves c \<Rightarrow> None)"
  by (simp add: connected_after_callbacks) (simp add: new_client_def)

text \<open>
  C6 (as the code has it). \<open>stop\<close> calls the library's \<open>shutdown\<close>, on a started server and
  on one that never was; when \<open>shutdown\<close> returns, the thread reference and the tracked
  client are set to none; when it raises, \<open>stop\<close> raises and both fields stay. \<open>shutdown\<close>
  is its only call: \<open>stop\<close> itself joins no thread and closes no socket.
\<close>

theorem stop_calls_shutdown:
  "stop None s =
     Returned (s\<lparr>thread := None, connected_client := None,
                 transport := transport s @ [Shutdown]\<rparr>)
   \<and> stop (Some e) s = Raised e (s\<lparr>transport := transport s @ [Shutdown]\<rparr>)"
  by (simp add: stop_def lib_def)

theorem stop_counterexample:
  "stop None Server_init \<noteq> Returned Server_init
   \<and> transport (final (stop None Server_init)) = [Shutdown]
   \<and> stop (Some AttributeError) Server_init \<noteq> Returned Server_init
   \<and> transport (final (stop None (final (GoogleChrome_start None Server_init)))) =
       [WebsocketServer_init 8000 ''localhost'', Thread_start, Shutdown]"
  by (simp add: stop_def lib_def Server_init_def GoogleChrome_start_def start_def)

text \<open>
  C7. With a url that string expansion leaves as it is, \<open>NewTab\<close> builds the dict of the
  example, serialises it and gives the text to \<open>send\<close>; with a client attached that text is
  the one thing written.
\<close>

theorem new_tab_example:
  assumes "ParseString ''http://example.com'' = Inr ''http://example.com''"
  shows
    "NewTab_call ParseString dumps ''http://example.com'' (PBool True) (PBool False)
        (PInt 1) (PInt 3) s =
       send (dumps (PDict [(''command'', PStr ''NewTab''),
         (''parameters'', PDict [(''url'', PStr ''http://example.com''),
            (''active'', PBool True), (''pinned'', PBool False), (''target'', PInt 1),
            (''index'', PInt 3)])])) s
     \<and> (connected_client s = Some c \<longrightarrow>
        NewTab_call ParseString dumps ''http://example.com'' (PBool True) (PBool False)
            (PInt 1) (PInt 3) s =
          Returned (s\<lparr>transport := transport s @ [Send_message (handler c)
            (dumps (PDict [(''command'', PStr ''NewTab''),
               (''parameters'', PDict [(''url'', PStr ''http://example.com''),
                  (''active'', PBool True), (''pinned'', PBool False), (''target'', PInt 1),
                  (''index'', PInt 3)])]))]\<rparr>))"
  using assms by (simp add: NewTab_call_def NewTab_message_def send_def lib_def)

theorem new_tab_example_witness:
  "NewTab_call sample_ParseString sample_dumps ''http://example.com'' (PBool True) (PBool False)
     (PInt 1) (PInt 3) (new_client example_client Server_init) =
   Returned ((new_client example_client Server_init)
     \<lparr>transport := [Send_message 1 example_text]\<rparr>)"
proof -
  have p: "sample_ParseString ''http://example.com'' = Inr ''http://example.com''"
    by (simp add: sample_ParseString_def)
  have c: "connected_client (new_client example_client Server_init) = Some example_client"
    by (simp add: new_client_def)
  have t: "transport (new_client example_client Server_init) = []"
    by (simp add: new_client_def TriggerEvent_def Server_init_def)
  have d: "sample_dumps example_message = example_text"
    by (simp add: sample_dumps_def)
  have h: "handler example_client = 1"
    by (simp add: example_client_def)
  show ?thesis
    using new_tab_example [where ParseString = sample_ParseString and dumps = sample_dumps
        and s = "new_client example_client Server_init" and c = example_client, OF p,
        THEN conjunct2] c
    by (simp add: t d h example_message_def [symmetric])
qed

text \<open>
  C8. What the seven actions put on the wire when a client is attached: each writes one
  message to that client's handler, the serialised dict of the action, and nothing else
  changes. The dict of \<open>QueryTabByIndex\<close> is the command and the argument under
  \<open>data\<close>, with no \<open>parameters\<close>; the dict of \<open>QueryActiveTab\<close> is the command alone;
  the dicts of the other five are the command and, under \<open>parameters\<close>, a dict of their
  fields. The two actions that expand their url raise what the expansion raises.
\<close>

theorem wire_shapes:
  assumes "connected_client s = Some c"
  shows
    "QueryTabByIndex_call dumps index s =
       Returned (s\<lparr>transport := transport s @
         [Send_message (handler c) (dumps (QueryTabByIndex_message index))]\<rparr>)
     \<and> QueryTabByIndex_message index =
         PDict [(''command'', PStr ''QueryTabByIndex''), (''data'', index)]
     \<and> getitem (QueryTabByIndex_message index) ''data'' = Inr index
     \<and> getitem (QueryTabByIndex_message index) ''parameters'' = Inl (KeyError ''parameters'')
     \<and> QueryActiveTab_call dumps s =
         Returned (s\<lparr>transport := transport s @
           [Send_message (handler c) (dumps QueryActiveTab_message)]\<rparr>)
     \<and> QueryActiveTab_message = PDict [(''command'', PStr ''QueryActiveTab'')]
     \<and> getitem QueryActiveTab_message ''parameters'' = Inl (KeyError ''parameters'')
     \<and> NewTab_call ParseString dumps url_arg active pinned target index s =
         (case ParseString url_arg of
            Inl e \<Rightarrow> Raised e s
          | Inr url \<Rightarrow>
              Returned (s\<lparr>transport := transport s @
                [Send_message (handler c)
                   (dumps (NewTab_message url active pinned target index))]\<rparr>))
     \<and> NewTab_message url active pinned target index =
         PDict [(''command'', PStr ''NewTab''),
                (''parameters'', PDict [(''url'', PStr url), (''active'', active),
                   (''pinned'', pinned), (''target'', target), (''index'', index)])]
     \<and> UpdateTab_call ParseString dumps url_arg active pinned muted target index s =
         (case ParseString url_arg of
            Inl e \<Rightarrow> Raised e s
          | Inr url \<Rightarrow>
              Returned (s\<lparr>transport := transport s @
                [Send_message (handler c)
                   (dumps (UpdateTab_message url active pinned muted target index))]\<rparr>))
     \<and> UpdateTab_message url active pinned muted target index =
         PDict [(''command'', PStr ''NewUrl''),
                (''parameters'', PDict [(''url'', PStr url), (''active'', active),
                   (''pinned'', pinned), (''muted'', muted), (''target'', target),
                   (''index'', index)])]
     \<and> ReloadTab_call dumps target index bypasscache s =
         Returned (s\<lparr>transport := transport s @
           [Send_message (handler c) (dumps (ReloadTab_message target index bypasscache))]\<rparr>)
     \<and> ReloadTab_message target index bypasscache =
         PDict [(''command'', PStr ''ReloadTab''),
                (''parameters'', PDict [(''target'', target), (''index'', index),
                   (''bypasscache'', bypasscache)])]
     \<and> MoveTab_call dumps target startindex endindex s =
         Returned (s\<lparr>transport := transport s @
           [Send_message (handler c) (dumps (MoveTab_message target startindex endindex))]\<rparr>)
     \<and> MoveTab_message target startindex endindex =
         PDict [(''command'', PStr ''MoveTab''),
                (''parameters'', PDict [(''target'', target), (''startindex'', startindex),
                   (''endindex'', endindex)])]
     \<and> RemoveTab_call dumps target index s =
         Returned (s\<lparr>transport := transport s @
           [Send_message (handler c) (dumps (RemoveTab_message target index))]\<rparr>)
     \<and> RemoveTab_message target index =
         PDict [(''command'', PStr ''RemoveTab''),
                (''parameters'', PDict [(''target'', target), (''index'', index)])]"
  using assms
  by (simp add: send_def lib_def QueryTabByIndex_call_def QueryTabByIndex_message_def
      QueryActiveTab_call_def QueryActiveTab_message_def NewTab_call_def NewTab_message_def
      UpdateTab_call_def UpdateTab_message_def ReloadTab_call_def ReloadTab_message_def
      MoveTab_call_def MoveTab_message_def RemoveTab_call_def RemoveTab_message_def
      split: sum.split)

theorem wire_shapes_witness:
  \<open>connected_client (new_client example_client Server_init) = Some example_client
   \<and> QueryActiveTab_call sample_dumps (new_client example_client Server_init) =
       Returned ((new_client example_client Server_init)
         \<lparr>transport := [Send_message 1 ''{"command": "QueryActiveTab"}'']\<rparr>)
   \<and> QueryTabByIndex_call sample_dumps (PInt 2) (new_client example_client Server_init) =
       Returned ((new_client example_client Server_init)
         \<lparr>transport := [Send_message 1
            (sample_dumps (PDict [(''command'', PStr ''QueryTabByIndex''),
                                  (''data'', PInt 2)]))]\<rparr>)\<close>
proof -
  have c: "connected_client (new_client example_client Server_init) = Some example_client"
    by (simp add: new_client_def)
  have t: "transport (new_client example_client Server_init) = []"
    by (simp add: new_client_def TriggerEvent_def Server_init_def)
  have h: "handler example_client = 1"
    by (simp add: example_client_def)
  have d: \<open>sample_dumps QueryActiveTab_message = ''{"command": "QueryActiveTab"}''\<close>
    by (simp add: sample_dumps_def QueryActiveTab_message_def example_message_def)
  note w = wire_shapes [where dumps = sample_dumps and index = "PInt 2", OF c]
  have a: "QueryActiveTab_call sample_dumps (new_client example_client Server_init) =
       Returned ((new_client example_client Server_init)
         \<lparr>transport := transport (new_client example_client Server_init) @
           [Send_message (handler example_client) (sample_dumps QueryActiveTab_message)]\<rparr>)"
    using w by blast
  have i: "QueryTabByIndex_call sample_dumps (PInt 2) (new_client example_client Server_init) =
       Returned ((new_client example_client Server_init)
         \<lparr>transport := transport (new_client example_client Server_init) @
           [Send_message (handler example_client)
              (sample_dumps (QueryTabByIndex_message (PInt 2)))]\<rparr>)"
    using w by blast
  show ?thesis
    using a i c by (simp add: t h d QueryTabByIndex_message_def)
qed

text \<open>
  C9. \<open>client_left\<close> does not look at the client that left: the tracked client is none
  afterwards, whoever it was. After a second peer has displaced the first and the first one
  leaves, no client is tracked, and a \<open>send\<close> writes nothing.
\<close>

theorem client_left_clears_any:
  "connected_client (client_left c s) = None
   \<and> connected_client (client_left c1 (new_client c2 (new_client c1 s))) = None
   \<and> send message (client_left c1 (new_client c2 (new_client c1 s))) =
       Returned (client_left c1 (new_client c2 (new_client c1 s)))
   \<and> transport (client_left c1 (new_client c2 (new_client c1 s))) = transport s"
  by (simp add: client_left_def new_client_def send_def TriggerEvent_def)

text \<open>
  C10. For \<open>QueryActiveTab\<close> the first event goes out before the url is read: when \<open>data\<close>
  is a dict without \<open>url\<close>, \<open>QueryActiveTabInfo\<close> with the raw message has been triggered,
  and only that one of the tag's two events, when \<open>KeyError\<close> is raised.
\<close>

theorem query_active_partial_emission:
  assumes "loads message = Inr y"
    and "getitem y ''command'' = Inr (PStr ''QueryActiveTab'')"
    and "getitem y ''data'' = Inr (PDict d)"
    and "map_of d ''url'' = None"
  shows "command_received loads message s =
     Raised (KeyError ''url'')
       (s\<lparr>printed := printed s @ [message],
          triggered := triggered s @ [(''QueryActiveTabInfo'', Some (PStr message))]\<rparr>)"
  using assms by (simp add: received_query_active_error data_field_absent)

theorem query_active_partial_emission_witness:
  "command_received sample_loads frame_query_active_no_url Server_init =
     Raised (KeyError ''url'')
       (Server_init\<lparr>printed := [frame_query_active_no_url],
          triggered := [(''QueryActiveTabInfo'', Some (PStr frame_query_active_no_url))]\<rparr>)"
proof -
  have init: "printed Server_init = []" "triggered Server_init = []"
    by (simp_all add: Server_init_def)
  show ?thesis
    using query_active_partial_emission [where loads = sample_loads and s = Server_init
        and d = "[]", OF loads_query_active_no_url getitem_event_command getitem_event_data]
    by (simp add: init)
qed

end
